theory Spec2Isabelle
  imports Main
begin

section \<open>Stratum session core of the pool proxy (proxy/stratum.go)\<close>

text \<open>
  A shallow embedding of \<^verbatim>\<open>proxy/stratum.go\<close>. Every function of the file that
  touches a connection, the session registry or the policy gateway becomes a function
  on an explicit \<open>world\<close>; a Go \<^verbatim>\<open>error\<close> result becomes an \<open>error option\<close>
  (\<open>None\<close> is \<^verbatim>\<open>nil\<close>). Goroutines are run one after the other; log output is
  left out.
\<close>

subsection \<open>Data\<close>

text \<open>Go \<^verbatim>\<open>error\<close> values that reach this file.\<close>

datatype error =
    EOF                     \<comment> \<open>\<^verbatim>\<open>io.EOF\<close>\<close>
  | Transport string        \<comment> \<open>a read or write error of the connection (reset, deadline passed)\<close>
  | Syntax string           \<comment> \<open>an error of \<^verbatim>\<open>json.Unmarshal\<close>\<close>
  | Message string          \<comment> \<open>\<^verbatim>\<open>errors.New(text)\<close>\<close>
  | ErrBufferFull           \<comment> \<open>\<^verbatim>\<open>bufio.ErrBufferFull\<close>, internal to the reader\<close>

text \<open>
  \<^verbatim>\<open>*Session\<close>: the pointer is the identity of a session (it is the key of the
  registry map), so the record carries its address next to the fields that
  \<^verbatim>\<open>ListenTCP\<close> fills in at accept time. The connection \<^verbatim>\<open>cs.conn\<close> belongs to
  exactly one session and is addressed through it.
\<close>

record Session =
  ptr :: nat
  s_id :: nat
  ip :: string

text \<open>\<^verbatim>\<open>StratumReq\<close>, as the fields are used in \<^verbatim>\<open>handleTCPMessage\<close>.
  \<^verbatim>\<open>json.RawMessage\<close> is the raw bytes.\<close>

record StratumReq =
  req_Id :: string
  req_Method :: string
  req_Params :: string
  req_Worker :: string

text \<open>\<^verbatim>\<open>*ErrorReply\<close> (non-nil); \<^verbatim>\<open>sendTCPError\<close> reads its \<^verbatim>\<open>Message\<close>.\<close>

record ErrorReply =
  err_Code :: int
  err_Message :: string

text \<open>The \<^verbatim>\<open>interface{}\<close> results that are encoded: a boolean, a list of strings,
  or \<^verbatim>\<open>nil\<close>.\<close>

datatype jresult = JNull | JBool bool | JStrings "string list"

text \<open>\<^verbatim>\<open>JSONRpcResp{Id, Version, Error, Result}\<close> and
  \<^verbatim>\<open>JSONPushMessage{Version, Result, Id}\<close>, the two envelopes given to the encoder.\<close>

record JSONRpcResp =
  resp_Id :: string
  resp_Version :: string
  resp_Error :: "ErrorReply option"
  resp_Result :: jresult

record JSONPushMessage =
  push_Version :: string
  push_Result :: jresult
  push_Id :: int

datatype envelope = Resp JSONRpcResp | Push JSONPushMessage

text \<open>Calls into the policy gateway made by this file.\<close>

datatype policy_call = BanClient string | ApplyMalformedPolicy string

text \<open>
  The state the file acts on.
  \<^item> \<open>registry k\<close>: the keys of \<^verbatim>\<open>s.stratum[k].sessions\<close>, listed in the order a
    \<^verbatim>\<open>range\<close> over the map visits them (any order: the world is arbitrary);
  \<^item> \<open>deadline cs\<close>: the deadline last set on \<^verbatim>\<open>cs.conn\<close>;
  \<^item> \<open>clock\<close>: the reading of \<^verbatim>\<open>time.Now()\<close> (no function of the file moves it; a
    theorem about a call holds for every reading);
  \<^item> \<open>conn_err cs\<close>: the error a write to \<^verbatim>\<open>cs.conn\<close> reports (\<open>None\<close> while the
    connection is writable);
  \<^item> \<open>encoded cs\<close>: the envelopes handed to \<^verbatim>\<open>cs.enc.Encode\<close>, oldest first;
  \<^item> \<open>closed\<close>: the sessions whose connection got \<^verbatim>\<open>conn.Close()\<close>;
  \<^item> \<open>policy\<close>: the calls made to the policy gateway, oldest first.
\<close>

record world =
  registry :: "nat \<Rightarrow> Session list"
  deadline :: "Session \<Rightarrow> int"
  clock :: int
  conn_err :: "Session \<Rightarrow> error option"
  encoded :: "Session \<Rightarrow> envelope list"
  closed :: "Session set"
  policy :: "policy_call list"

subsection \<open>Registry\<close>

text \<open>\<^verbatim>\<open>stratum.sessions[cs] = struct{}{}\<close> on the registry of \<^verbatim>\<open>cs.s_id\<close>.\<close>

definition registerSession :: "Session \<Rightarrow> world \<Rightarrow> world" where
  "registerSession cs w =
     w\<lparr>registry := (registry w)(s_id cs := List.insert cs (registry w (s_id cs)))\<rparr>"

text \<open>\<^verbatim>\<open>delete(stratum.sessions, cs)\<close> on the registry of \<^verbatim>\<open>cs.s_id\<close>.\<close>

definition removeSession :: "Session \<Rightarrow> world \<Rightarrow> world" where
  "removeSession cs w =
     w\<lparr>registry := (registry w)(s_id cs := removeAll cs (registry w (s_id cs)))\<rparr>"

subsection \<open>Reply encoding\<close>

text \<open>\<^verbatim>\<open>cs.enc.Encode(&message)\<close>: the envelope is handed to the encoder, whose
  result is that of the write to the connection.\<close>

definition Encode :: "Session \<Rightarrow> envelope \<Rightarrow> world \<Rightarrow> error option \<times> world" where
  "Encode cs m w = (conn_err w cs, w\<lparr>encoded := (encoded w)(cs := encoded w cs @ [m])\<rparr>)"

definition sendTCPResult :: "Session \<Rightarrow> string \<Rightarrow> jresult \<Rightarrow> world \<Rightarrow> error option \<times> world" where
  "sendTCPResult cs id' result w =
     (let message = \<lparr>resp_Id = id', resp_Version = ''2.0'', resp_Error = None, resp_Result = result\<rparr>
      in Encode cs (Resp message) w)"

definition pushNewJob :: "Session \<Rightarrow> jresult \<Rightarrow> world \<Rightarrow> error option \<times> world" where
  "pushNewJob cs result w =
     (let message = \<lparr>push_Version = ''2.0'', push_Result = result, push_Id = 0\<rparr>
      in Encode cs (Push message) w)"

definition sendTCPError :: "Session \<Rightarrow> string \<Rightarrow> ErrorReply \<Rightarrow> world \<Rightarrow> error option \<times> world" where
  "sendTCPError cs id' reply w =
     (let message = \<lparr>resp_Id = id', resp_Version = ''2.0'', resp_Error = Some reply, resp_Result = JNull\<rparr>
      in case Encode cs (Resp message) w of
           (Some err, w') \<Rightarrow> (Some err, w')
         | (None, w') \<Rightarrow> (Some (Message (err_Message reply)), w'))"


subsection \<open>The identifier on the wire\<close>






subsection \<open>The server and its collaborators\<close>

text \<open>\<^verbatim>\<open>*BlockTemplate\<close>, as far as \<^verbatim>\<open>broadcastNewJobs\<close> reads it.\<close>

record BlockTemplate =
  Header :: string
  Seed :: string

text \<open>
  What the file reads of \<^verbatim>\<open>*ProxyServer\<close> and never writes after start-up, and what
  it calls but does not define. The RPC handlers, the block template source and the
  health flag live in other files of the package; \<^verbatim>\<open>json.Unmarshal\<close> is the
  standard library's. They are parameters here: every theorem below holds for all of
  them. A handler may change the world in any way (the login handler registers the
  session, for one).
  \<^item> \<open>timeout k\<close>, \<open>diff k\<close>: \<^verbatim>\<open>s.stratum[k].timeout\<close> and \<^verbatim>\<open>s.stratum[k].diff\<close>;
  \<^item> \<open>Unmarshal_req data\<close>: \<^verbatim>\<open>json.Unmarshal(data, &req)\<close> for a \<^verbatim>\<open>StratumReq\<close>;
  \<^item> \<open>Unmarshal_strings raw\<close>: \<^verbatim>\<open>json.Unmarshal(raw, &params)\<close> for a \<^verbatim>\<open>[]string\<close>;
  \<^item> a handler gives its reply and its \<^verbatim>\<open>*ErrorReply\<close> (\<open>None\<close> is \<^verbatim>\<open>nil\<close>).
\<close>

record ProxyServer =
  timeout :: "nat \<Rightarrow> int"
  diff :: "nat \<Rightarrow> string"
  Unmarshal_req :: "string \<Rightarrow> error + StratumReq"
  Unmarshal_strings :: "string \<Rightarrow> error + string list"
  handleLoginRPC :: "Session \<Rightarrow> string list \<Rightarrow> string \<Rightarrow> world \<Rightarrow> (jresult \<times> ErrorReply option) \<times> world"
  handleGetWorkRPC :: "Session \<Rightarrow> world \<Rightarrow> (jresult \<times> ErrorReply option) \<times> world"
  handleTCPSubmitRPC :: "Session \<Rightarrow> string \<Rightarrow> string list \<Rightarrow> world \<Rightarrow> (jresult \<times> ErrorReply option) \<times> world"
  handleUnknownRPC :: "Session \<Rightarrow> string \<Rightarrow> world \<Rightarrow> ErrorReply \<times> world"
  currentBlockTemplate :: "world \<Rightarrow> BlockTemplate option"
  isSick :: "world \<Rightarrow> bool"

text \<open>\<^verbatim>\<open>conn.SetDeadline(time.Now().Add(self.stratum[s_id].timeout))\<close>; a connection is
  named by the session that owns it.\<close>

definition setDeadline :: "ProxyServer \<Rightarrow> Session \<Rightarrow> nat \<Rightarrow> world \<Rightarrow> world" where
  "setDeadline self conn sid w = w\<lparr>deadline := (deadline w)(conn := clock w + timeout self sid)\<rparr>"

text \<open>\<^verbatim>\<open>s.policy.BanClient(ip)\<close>, \<^verbatim>\<open>s.policy.ApplyMalformedPolicy(ip)\<close> and
  \<^verbatim>\<open>conn.Close()\<close>.\<close>

definition policy_BanClient :: "string \<Rightarrow> world \<Rightarrow> world" where
  "policy_BanClient a w = w\<lparr>policy := policy w @ [BanClient a]\<rparr>"

definition policy_ApplyMalformedPolicy :: "string \<Rightarrow> world \<Rightarrow> world" where
  "policy_ApplyMalformedPolicy a w = w\<lparr>policy := policy w @ [ApplyMalformedPolicy a]\<rparr>"

definition conn_Close :: "Session \<Rightarrow> world \<Rightarrow> world" where
  "conn_Close conn w = w\<lparr>closed := insert conn (closed w)\<rparr>"

subsection \<open>Line framing\<close>

text \<open>
  \<^verbatim>\<open>bufio.Reader\<close> over the connection. \<open>unread\<close> is what the client sends that
  no \<^verbatim>\<open>ReadLine\<close> has returned yet, \<open>final\<close> the error the connection reports once
  these bytes are used up (\<^verbatim>\<open>io.EOF\<close> when the client closes, a transport error
  otherwise), \<open>buf_size\<close> the size of the buffer.
\<close>

record Reader =
  unread :: string
  final :: error
  buf_size :: nat

definition MaxReqSize :: nat where
  "MaxReqSize = 1024"

definition LF :: char where
  "LF = CHR 0x0A"

definition CR :: char where
  "CR = CHR 0x0D"

text \<open>\<^verbatim>\<open>bufio.NewReaderSize(conn, size)\<close>: the buffer has at least 16 bytes.\<close>

definition NewReaderSize :: "string \<Rightarrow> error \<Rightarrow> nat \<Rightarrow> Reader" where
  "NewReaderSize bytes fin n = \<lparr>unread = bytes, final = fin, buf_size = (if n < 16 then 16 else n)\<rparr>"

text \<open>
  \<^verbatim>\<open>ReadSlice('\n')\<close> of the standard library: the bytes up to and with the first
  line feed, when it stands within the buffer; else, when the input ends before the
  buffer is full, the rest of the input with the connection's error; else the full
  buffer with \<^verbatim>\<open>ErrBufferFull\<close>.
\<close>

definition ReadSlice :: "Reader \<Rightarrow> (string \<times> error option) \<times> Reader" where
  "ReadSlice b =
     (let buf = take (buf_size b) (unread b);
          i = length (takeWhile (\<lambda>c. c \<noteq> LF) buf)
      in if i < length buf then
           ((take (Suc i) (unread b), None), b\<lparr>unread := drop (Suc i) (unread b)\<rparr>)
         else if length (unread b) < buf_size b then
           ((unread b, Some (final b)), b\<lparr>unread := []\<rparr>)
         else
           ((buf, Some ErrBufferFull), b\<lparr>unread := drop (buf_size b) (unread b)\<rparr>))"

text \<open>
  \<^verbatim>\<open>ReadLine()\<close> of the standard library, giving \<^verbatim>\<open>(line, isPrefix, err)\<close>: on
  \<^verbatim>\<open>ErrBufferFull\<close> the line is a prefix and the error is \<^verbatim>\<open>nil\<close> (a carriage
  return in the last place goes back to the input); an empty slice passes the error on;
  otherwise the error is dropped and the line loses its end-of-line bytes.
\<close>

definition ReadLine :: "Reader \<Rightarrow> (string \<times> bool \<times> error option) \<times> Reader" where
  "ReadLine b =
     (case ReadSlice b of
        ((line, err), b') \<Rightarrow>
          if err = Some ErrBufferFull then
            (if line \<noteq> [] \<and> last line = CR
             then ((butlast line, True, None), b'\<lparr>unread := CR # unread b'\<rparr>)
             else ((line, True, None), b'))
          else if line = [] then (([], False, err), b')
          else if last line = LF then
            (let d = (if 1 < length line \<and> line ! (length line - 2) = CR then 2 else 1)
             in ((take (length line - d) line, False, None), b'))
          else ((line, False, None), b'))"

subsection \<open>Dispatch\<close>

text \<open>
  \<^verbatim>\<open>handleTCPMessage\<close>: the \<^verbatim>\<open>switch\<close> on the method name. The reply of
  \<^verbatim>\<open>handleUnknownRPC\<close> goes to \<^verbatim>\<open>sendTCPError\<close> unchecked; the handler constructs
  an error reply, so it is never \<^verbatim>\<open>nil\<close> (with \<^verbatim>\<open>nil\<close>, \<^verbatim>\<open>sendTCPError\<close> would panic
  on \<^verbatim>\<open>reply.Message\<close>).
\<close>

definition handleTCPMessage :: "ProxyServer \<Rightarrow> Session \<Rightarrow> StratumReq \<Rightarrow> world \<Rightarrow> error option \<times> world" where
  "handleTCPMessage s cs req w =
     (if req_Method req = ''eth_submitLogin'' \<or> req_Method req = ''eth_login'' then
        (case Unmarshal_strings s (req_Params req) of
           Inl err \<Rightarrow> (Some err, w)
         | Inr params \<Rightarrow>
             (case handleLoginRPC s cs params (req_Worker req) w of
                ((reply, Some errReply), w') \<Rightarrow> sendTCPError cs (req_Id req) errReply w'
              | ((reply, None), w') \<Rightarrow> sendTCPResult cs (req_Id req) reply w'))
      else if req_Method req = ''eth_getWork'' then
        (case handleGetWorkRPC s cs w of
           ((reply, Some errReply), w') \<Rightarrow> sendTCPError cs (req_Id req) errReply w'
         | ((reply, None), w') \<Rightarrow> sendTCPResult cs (req_Id req) reply w')
      else if req_Method req = ''eth_submitWork'' then
        (case Unmarshal_strings s (req_Params req) of
           Inl err \<Rightarrow> (Some err, w)
         | Inr params \<Rightarrow>
             (case handleTCPSubmitRPC s cs (req_Worker req) params w of
                ((reply, Some errReply), w') \<Rightarrow> sendTCPError cs (req_Id req) errReply w'
              | ((reply, None), w') \<Rightarrow> sendTCPResult cs (req_Id req) reply w'))
      else if req_Method req = ''eth_submitHashrate'' then
        sendTCPResult cs (req_Id req) (JBool True) w
      else
        (case handleUnknownRPC s cs (req_Method req) w of
           (errReply, w') \<Rightarrow> sendTCPError cs (req_Id req) errReply w'))"

subsection \<open>The session handler\<close>

text \<open>
  The \<^verbatim>\<open>for\<close> loop of \<^verbatim>\<open>handleTCPClient\<close>. The \<^verbatim>\<open>break\<close> on \<^verbatim>\<open>io.EOF\<close> leads to
  the \<^verbatim>\<open>return nil\<close> after the loop. Every turn that goes on has taken at least one
  byte of the input, which is finite, so the loop ends.
\<close>

function client_loop :: "ProxyServer \<Rightarrow> Session \<Rightarrow> Reader \<Rightarrow> world \<Rightarrow> error option \<times> world" where
  "client_loop s cs connbuff w =
     (case ReadLine connbuff of
        ((data, isPrefix, err), connbuff') \<Rightarrow>
          if isPrefix then (err, policy_BanClient (ip cs) w)
          else if err = Some EOF then (None, removeSession cs w)
          else if err \<noteq> None then (err, w)
          else if 1 < length data then
            (case Unmarshal_req s data of
               Inl e \<Rightarrow> (Some e, policy_ApplyMalformedPolicy (ip cs) w)
             | Inr req \<Rightarrow>
                 (case handleTCPMessage s cs req (setDeadline s cs (s_id cs) w) of
                    (Some e, w') \<Rightarrow> (Some e, w')
                  | (None, w') \<Rightarrow> client_loop s cs connbuff' w'))
          else client_loop s cs connbuff' w)"
  by pat_completeness auto
termination
  apply (relation "measure (\<lambda>(s, cs, connbuff, w). length (unread connbuff))")
    apply simp
   apply (auto simp: ReadLine_def ReadSlice_def Let_def split: if_splits)
  done

declare client_loop.simps [simp del]

text \<open>\<^verbatim>\<open>handleTCPClient\<close>: the encoder and the reader are made, the deadline is set,
  the loop runs. \<open>bytes\<close> and \<open>fin\<close> are what the client sends on the connection and
  how the connection ends.\<close>

definition handleTCPClient :: "ProxyServer \<Rightarrow> Session \<Rightarrow> string \<Rightarrow> error \<Rightarrow> world \<Rightarrow> error option \<times> world" where
  "handleTCPClient s cs bytes fin w =
     (let connbuff = NewReaderSize bytes fin MaxReqSize
      in client_loop s cs connbuff (setDeadline s cs (s_id cs) w))"

text \<open>
  The goroutine that \<^verbatim>\<open>ListenTCP\<close> starts for an admitted connection:
  \<^verbatim>\<open>err = s.handleTCPClient(cs); if err != nil { s.removeSession(cs); conn.Close() }\<close>.
  \<open>ListenTCP_done\<close> is what follows the handler's return.
\<close>

definition ListenTCP_done :: "Session \<Rightarrow> error option \<times> world \<Rightarrow> world" where
  "ListenTCP_done cs r =
     (case r of (err, w') \<Rightarrow> if err \<noteq> None then conn_Close cs (removeSession cs w') else w')"

definition ListenTCP_serve :: "ProxyServer \<Rightarrow> Session \<Rightarrow> string \<Rightarrow> error \<Rightarrow> world \<Rightarrow> world" where
  "ListenTCP_serve s cs bytes fin w = ListenTCP_done cs (handleTCPClient s cs bytes fin w)"

subsection \<open>The job broadcaster\<close>

text \<open>The goroutine of \<^verbatim>\<open>broadcastNewJobs\<close> for one session of the registry.\<close>

definition broadcast_push :: "ProxyServer \<Rightarrow> jresult \<Rightarrow> Session \<Rightarrow> world \<Rightarrow> world" where
  "broadcast_push s reply cs w =
     (case pushNewJob cs reply w of
        (Some err, w') \<Rightarrow> removeSession cs w'
      | (None, w') \<Rightarrow> setDeadline s cs (s_id cs) w')"

text \<open>
  \<^verbatim>\<open>broadcastNewJobs\<close>: nothing happens without a template, with an empty header or
  while the service is sick; otherwise every session that the registry holds when
  the loop starts gets its push (the goroutines cannot change the map while the
  read lock is held, so the loop ranges over that first state).
\<close>

definition broadcastNewJobs :: "ProxyServer \<Rightarrow> nat \<Rightarrow> world \<Rightarrow> world" where
  "broadcastNewJobs s sid w =
     (case currentBlockTemplate s w of
        None \<Rightarrow> w
      | Some t \<Rightarrow>
          if length (Header t) = 0 \<or> isSick s w then w
          else let reply = JStrings [Header t, Seed t, diff s sid]
               in fold (broadcast_push s reply) (registry w sid) w)"

subsection \<open>A sample server\<close>

text \<open>
  One server, one session and a few request lines, for running the definitions. The two
  decoders are tables: they agree with \<^verbatim>\<open>encoding/json\<close> on the lines listed and
  reject everything else. The handlers are stand-ins for the package's own: login
  registers the session, nothing is ever refused but empty parameters.
\<close>

definition line_login :: string where
  \<open>line_login = ''{"id":1,"method":"eth_submitLogin","params":["0xb85150eb365e7df0941f0cf08235f987ba91506a"],"worker":"rig1"}''\<close>

definition line_getWork :: string where
  \<open>line_getWork = ''{"id":2,"method":"eth_getWork"}''\<close>

definition line_hashrate :: string where
  \<open>line_hashrate = ''{"id":1,"method":"eth_submitHashrate","params":[]}''\<close>

definition line_unknown :: string where
  \<open>line_unknown = ''{"id":3,"method":"eth_getBalance","params":[]}''\<close>

definition line_bad_params :: string where
  \<open>line_bad_params = ''{"id":4,"method":"eth_submitWork","params":{}}''\<close>

definition line_garbage :: string where
  \<open>line_garbage = ''GET / HTTP/1.1''\<close>

definition sample_Unmarshal_req :: "string \<Rightarrow> error + StratumReq" where
  \<open>sample_Unmarshal_req data =
     (if data = line_login then
        Inr \<lparr>req_Id = ''1'', req_Method = ''eth_submitLogin'',
             req_Params = ''["0xb85150eb365e7df0941f0cf08235f987ba91506a"]'', req_Worker = ''rig1''\<rparr>
      else if data = line_getWork then
        Inr \<lparr>req_Id = ''2'', req_Method = ''eth_getWork'', req_Params = [], req_Worker = []\<rparr>
      else if data = line_hashrate then
        Inr \<lparr>req_Id = ''1'', req_Method = ''eth_submitHashrate'', req_Params = ''[]'', req_Worker = []\<rparr>
      else if data = line_unknown then
        Inr \<lparr>req_Id = ''3'', req_Method = ''eth_getBalance'', req_Params = ''[]'', req_Worker = []\<rparr>
      else if data = line_bad_params then
        Inr \<lparr>req_Id = ''4'', req_Method = ''eth_submitWork'', req_Params = ''{}'', req_Worker = []\<rparr>
      else Inl (Syntax ''invalid character''))\<close>

definition sample_Unmarshal_strings :: "string \<Rightarrow> error + string list" where
  \<open>sample_Unmarshal_strings raw =
     (if raw = ''[]'' then Inr []
      else if raw = ''["0xb85150eb365e7df0941f0cf08235f987ba91506a"]'' then
        Inr [''0xb85150eb365e7df0941f0cf08235f987ba91506a'']
      else if raw = ''{}'' then
        Inl (Syntax ''json: cannot unmarshal object into Go value of type []string'')
      else Inl (Syntax ''unexpected end of JSON input''))\<close>

definition sample_login :: "Session \<Rightarrow> string list \<Rightarrow> string \<Rightarrow> world \<Rightarrow> (jresult \<times> ErrorReply option) \<times> world" where
  "sample_login cs params worker w =
     (if params = [] then ((JBool False, Some \<lparr>err_Code = - 1, err_Message = ''Invalid params''\<rparr>), w)
      else ((JBool True, None), registerSession cs w))"

definition sample_getWork :: "Session \<Rightarrow> world \<Rightarrow> (jresult \<times> ErrorReply option) \<times> world" where
  "sample_getWork cs w = ((JStrings [''0x1f'', ''0x2e'', ''0x3d''], None), w)"

definition sample_submit :: "Session \<Rightarrow> string \<Rightarrow> string list \<Rightarrow> world \<Rightarrow> (jresult \<times> ErrorReply option) \<times> world" where
  "sample_submit cs worker params w =
     (if params = [] then ((JBool False, Some \<lparr>err_Code = - 1, err_Message = ''Invalid params''\<rparr>), w)
      else ((JBool True, None), w))"

definition sample_unknown :: "Session \<Rightarrow> string \<Rightarrow> world \<Rightarrow> ErrorReply \<times> world" where
  "sample_unknown cs m w = (\<lparr>err_Code = - 3, err_Message = ''Method not found''\<rparr>, w)"

definition sample_server :: ProxyServer where
  "sample_server =
     \<lparr>timeout = (\<lambda>k. 5000000000), diff = (\<lambda>k. ''0x64''),
      Unmarshal_req = sample_Unmarshal_req, Unmarshal_strings = sample_Unmarshal_strings,
      handleLoginRPC = sample_login, handleGetWorkRPC = sample_getWork,
      handleTCPSubmitRPC = sample_submit, handleUnknownRPC = sample_unknown,
      currentBlockTemplate = (\<lambda>w. Some \<lparr>Header = ''0x1f'', Seed = ''0x2e''\<rparr>),
      isSick = (\<lambda>w. False)\<rparr>"

definition miner :: Session where
  "miner = \<lparr>ptr = 1, s_id = 0, ip = ''10.0.0.7''\<rparr>"

definition rig :: Session where
  "rig = \<lparr>ptr = 2, s_id = 0, ip = ''10.0.0.8''\<rparr>"

text \<open>A fresh world: no session registered, every connection writable, nothing sent.\<close>

definition world0 :: world where
  "world0 =
     \<lparr>registry = (\<lambda>k. []), deadline = (\<lambda>c. 0), clock = 1000, conn_err = (\<lambda>c. None),
      encoded = (\<lambda>c. []), closed = {}, policy = []\<rparr>"

text \<open>Both sessions registered on endpoint 0, their deadlines set at time 400; the
  connection of \<open>rig\<close> is broken.\<close>

definition world1 :: world where
  "world1 =
     \<lparr>registry = (\<lambda>k. if k = 0 then [miner, rig] else []),
      deadline = (\<lambda>c. 400 + 5000000000), clock = 1000,
      conn_err = (\<lambda>c. if c = rig then Some (Transport ''broken pipe'') else None),
      encoded = (\<lambda>c. []), closed = {}, policy = []\<rparr>"



section \<open>Properties\<close>

subsection \<open>Unfolding the definitions\<close>

lemmas sample_defs = sample_server_def sample_Unmarshal_req_def sample_Unmarshal_strings_def
  sample_login_def sample_getWork_def sample_submit_def sample_unknown_def
  line_login_def line_getWork_def line_hashrate_def line_unknown_def line_bad_params_def
  line_garbage_def miner_def rig_def world0_def world1_def

lemmas run_defs = handleTCPClient_def ListenTCP_serve_def ListenTCP_done_def client_loop.simps
  ReadLine_def ReadSlice_def NewReaderSize_def MaxReqSize_def LF_def CR_def Let_def
  handleTCPMessage_def sendTCPError_def sendTCPResult_def pushNewJob_def Encode_def
  setDeadline_def removeSession_def registerSession_def conn_Close_def
  policy_BanClient_def policy_ApplyMalformedPolicy_def broadcastNewJobs_def broadcast_push_def

subsection \<open>The loop, turn by turn\<close>

lemma ReadLine_prefix_no_error:
  "ReadLine b = ((data, True, err), b') \<Longrightarrow> err = None"
  by (auto simp: ReadLine_def ReadSlice_def Let_def split: if_splits)

lemma ReadSlice_full:
  assumes "buf_size b \<le> length (unread b)" and "LF \<notin> set (take (buf_size b) (unread b))"
  shows "ReadSlice b =
    ((take (buf_size b) (unread b), Some ErrBufferFull), b\<lparr>unread := drop (buf_size b) (unread b)\<rparr>)"
proof -
  have "takeWhile (\<lambda>c. c \<noteq> LF) (take (buf_size b) (unread b)) = take (buf_size b) (unread b)"
    using assms(2) by (intro takeWhile_eq_all_conv[THEN iffD2]) auto
  then have "length (takeWhile (\<lambda>c. c \<noteq> LF) (take (buf_size b) (unread b)))
      = length (take (buf_size b) (unread b))"
    by (simp only:)
  moreover have "length (take (buf_size b) (unread b)) = buf_size b"
    using assms(1) by simp
  ultimately show ?thesis
    using assms(1) unfolding ReadSlice_def Let_def by (simp del: takeWhile_eq_all_conv)
qed

lemma ReadLine_flood:
  assumes "buf_size b \<le> length (unread b)" and "LF \<notin> set (take (buf_size b) (unread b))"
  shows "\<exists>data b'. ReadLine b = ((data, True, None), b')"
  unfolding ReadLine_def ReadSlice_full [OF assms] by simp

lemma takeWhile_upto_LF:
  "LF \<notin> set l \<Longrightarrow> takeWhile (\<lambda>c. c \<noteq> LF) (l @ LF # r) = l"
  by (induction l) auto

lemma ReadSlice_line:
  assumes "LF \<notin> set l" and "length l < buf_size b" and "unread b = l @ LF # rest"
  shows "ReadSlice b = ((l @ [LF], None), b\<lparr>unread := rest\<rparr>)"
proof -
  have t: "take (buf_size b) (unread b) = l @ LF # take (buf_size b - Suc (length l)) rest"
    using assms(2,3) by (simp add: take_Cons')
  have "takeWhile (\<lambda>c. c \<noteq> LF) (take (buf_size b) (unread b)) = l"
    unfolding t using assms(1) by (rule takeWhile_upto_LF)
  then have i: "length (takeWhile (\<lambda>c. c \<noteq> LF) (take (buf_size b) (unread b))) = length l"
    by (simp only:)
  have n: "length l < length (take (buf_size b) (unread b))"
    unfolding t by simp
  show ?thesis
    unfolding ReadSlice_def Let_def i using n assms(3) by simp
qed

lemma ReadLine_whole:
  assumes "LF \<notin> set l" and "length l < buf_size b" and "unread b = l @ LF # rest"
  shows "ReadLine b = ((if l \<noteq> [] \<and> last l = CR then butlast l else l, False, None), b\<lparr>unread := rest\<rparr>)"
proof (cases "l = []")
  case True
  then show ?thesis
    unfolding ReadLine_def ReadSlice_line [OF assms] by (simp add: Let_def)
next
  case False
  then have "(l @ [LF]) ! (length l - Suc 0) = last l"
    by (simp add: nth_append last_conv_nth)
  with False show ?thesis
    unfolding ReadLine_def ReadSlice_line [OF assms] by (simp add: Let_def butlast_conv_take)
qed

lemma ReadLine_at_size_is_prefix:
  "fst (ReadLine (NewReaderSize (replicate 1024 (CHR ''x'') @ [LF]) EOF MaxReqSize))
     = (replicate 1024 (CHR ''x''), True, None)"
  by (simp add: ReadLine_def ReadSlice_def NewReaderSize_def MaxReqSize_def LF_def CR_def Let_def)

lemma client_loop_flood:
  "ReadLine b = ((data, True, err), b') \<Longrightarrow> client_loop s cs b w = (None, policy_BanClient (ip cs) w)"
  using ReadLine_prefix_no_error [of b data err b']
  by (subst client_loop.simps) simp

lemma client_loop_eof:
  "ReadLine b = ((data, False, Some EOF), b') \<Longrightarrow> client_loop s cs b w = (None, removeSession cs w)"
  by (subst client_loop.simps) simp

lemma client_loop_read_error:
  "ReadLine b = ((data, False, Some e), b') \<Longrightarrow> e \<noteq> EOF \<Longrightarrow> client_loop s cs b w = (Some e, w)"
  by (subst client_loop.simps) simp

lemma client_loop_skip:
  "ReadLine b = ((data, False, None), b') \<Longrightarrow> length data \<le> 1 \<Longrightarrow>
   client_loop s cs b w = client_loop s cs b' w"
  by (subst client_loop.simps) simp

lemma client_loop_malformed:
  "ReadLine b = ((data, False, None), b') \<Longrightarrow> 1 < length data \<Longrightarrow> Unmarshal_req s data = Inl e \<Longrightarrow>
   client_loop s cs b w = (Some e, policy_ApplyMalformedPolicy (ip cs) w)"
  by (subst client_loop.simps) simp

lemma client_loop_request:
  "ReadLine b = ((data, False, None), b') \<Longrightarrow> 1 < length data \<Longrightarrow> Unmarshal_req s data = Inr req \<Longrightarrow>
   client_loop s cs b w =
     (case handleTCPMessage s cs req (setDeadline s cs (s_id cs) w) of
        (Some e, w') \<Rightarrow> (Some e, w')
      | (None, w') \<Rightarrow> client_loop s cs b' w')"
  by (subst client_loop.simps) simp

subsection \<open>Replies\<close>

lemma sendTCPError_eq:
  "sendTCPError cs i reply w =
     (case conn_err w cs of Some e \<Rightarrow> Some e | None \<Rightarrow> Some (Message (err_Message reply)),
      w\<lparr>encoded := (encoded w)(cs := encoded w cs @
         [Resp \<lparr>resp_Id = i, resp_Version = ''2.0'', resp_Error = Some reply, resp_Result = JNull\<rparr>])\<rparr>)"
  by (simp add: sendTCPError_def Encode_def split: option.splits)

lemma sendTCPResult_eq:
  "sendTCPResult cs i result w =
     (conn_err w cs,
      w\<lparr>encoded := (encoded w)(cs := encoded w cs @
         [Resp \<lparr>resp_Id = i, resp_Version = ''2.0'', resp_Error = None, resp_Result = result\<rparr>])\<rparr>)"
  by (simp add: sendTCPResult_def Encode_def)

lemma sendTCPError_fails: "fst (sendTCPError cs i reply w) \<noteq> None"
  by (simp add: sendTCPError_eq split: option.splits)

lemma handleTCPMessage_unknown:
  assumes "req_Method req \<notin> {''eth_submitLogin'', ''eth_login'', ''eth_getWork'', ''eth_submitWork'', ''eth_submitHashrate''}"
    and "handleUnknownRPC s cs (req_Method req) w = (errReply, w1)"
  shows "handleTCPMessage s cs req w = sendTCPError cs (req_Id req) errReply w1"
  using assms by (simp add: handleTCPMessage_def)


subsection \<open>Claims about the reply encoding and the registry\<close>

text \<open>
  C5. For every id and every error reply, \<open>sendTCPError\<close> hands the envelope
  \<open>{id, version "2.0", error: reply}\<close> to the encoder and then returns a failure, also
  when the write went through: the transport's error when the write failed, otherwise
  a new error made of the reply's message. It never returns \<^verbatim>\<open>nil\<close>.
\<close>

theorem sendTCPError_always_fails:
  "sendTCPError cs i reply w =
     (case conn_err w cs of Some e \<Rightarrow> Some e | None \<Rightarrow> Some (Message (err_Message reply)),
      w\<lparr>encoded := (encoded w)(cs := encoded w cs @
         [Resp \<lparr>resp_Id = i, resp_Version = ''2.0'', resp_Error = Some reply, resp_Result = JNull\<rparr>])\<rparr>)
   \<and> fst (sendTCPError cs i reply w) \<noteq> None
   \<and> (conn_err w cs = None \<longrightarrow> fst (sendTCPError cs i reply w) = Some (Message (err_Message reply)))
   \<and> (conn_err w cs = Some e \<longrightarrow> fst (sendTCPError cs i reply w) = Some e)"
  by (simp add: sendTCPError_eq split: option.splits)

theorem sendTCPError_always_fails_witness:
  "fst (sendTCPError miner ''3'' \<lparr>err_Code = - 3, err_Message = ''Method not found''\<rparr> world0)
     = Some (Message ''Method not found'')
   \<and> encoded (snd (sendTCPError miner ''3'' \<lparr>err_Code = - 3, err_Message = ''Method not found''\<rparr> world0)) miner
     = [Resp \<lparr>resp_Id = ''3'', resp_Version = ''2.0'',
              resp_Error = Some \<lparr>err_Code = - 3, err_Message = ''Method not found''\<rparr>, resp_Result = JNull\<rparr>]
   \<and> fst (sendTCPError rig ''3'' \<lparr>err_Code = - 3, err_Message = ''Method not found''\<rparr> world1)
     = Some (Transport ''broken pipe'')"
proof -
  have a: "conn_err world0 miner = None"
    by (simp add: world0_def)
  have b: "conn_err world1 rig = Some (Transport ''broken pipe'')"
    by (simp add: world1_def)
  have c: "encoded world0 miner = []"
    by (simp add: world0_def)
  show ?thesis
    using sendTCPError_always_fails [of miner "''3''" "\<lparr>err_Code = - 3, err_Message = ''Method not found''\<rparr>" world0]
      sendTCPError_always_fails [of rig "''3''" "\<lparr>err_Code = - 3, err_Message = ''Method not found''\<rparr>" world1 "Transport ''broken pipe''"]
      a b c
    by simp
qed


text \<open>
  C10. \<open>removeSession\<close> takes exactly \<open>cs\<close> out of the session set of its own
  endpoint, leaves every other session and every other endpoint as they were, changes
  nothing when \<open>cs\<close> is not a member, and removing twice is removing once.
\<close>

theorem removeSession_idempotent:
  "set (registry (removeSession cs w) (s_id cs)) = set (registry w (s_id cs)) - {cs}
   \<and> (c \<noteq> cs \<longrightarrow> (c \<in> set (registry (removeSession cs w) k) \<longleftrightarrow> c \<in> set (registry w k)))
   \<and> (k \<noteq> s_id cs \<longrightarrow> registry (removeSession cs w) k = registry w k)
   \<and> (cs \<notin> set (registry w (s_id cs)) \<longrightarrow> removeSession cs w = w)
   \<and> removeSession cs (removeSession cs w) = removeSession cs w"
  by (simp add: removeSession_def)

theorem removeSession_idempotent_witness:
  "set (registry (removeSession rig world1) 0) = {miner}
   \<and> miner \<in> set (registry (removeSession rig world1) 0)
   \<and> registry (removeSession rig world1) 1 = []
   \<and> removeSession rig world0 = world0
   \<and> removeSession rig (removeSession rig world1) = removeSession rig world1"
proof -
  have a: "s_id rig = 0" "miner \<noteq> rig" "(1::nat) \<noteq> s_id rig"
    by (simp_all add: rig_def miner_def)
  have b: "set (registry world1 0) - {rig} = {miner}" "miner \<in> set (registry world1 0)"
    "registry world1 1 = []" "rig \<notin> set (registry world0 (s_id rig))"
    by (auto simp: world1_def world0_def rig_def miner_def)
  show ?thesis
    using removeSession_idempotent [of rig world1 miner 0] removeSession_idempotent [of rig world1 miner 1]
      removeSession_idempotent [of rig world0 miner 0] a b
    by simp
qed



subsection \<open>Helper facts for the session handler and the broadcaster\<close>

lemma serve_flood_not_closed:
  "ReadLine b = ((data, True, err), b') \<Longrightarrow>
   ListenTCP_done cs (client_loop s cs b w) = policy_BanClient (ip cs) w"
  by (simp add: client_loop_flood ListenTCP_done_def)

lemma serve_eof_not_closed:
  "ReadLine b = ((data, False, Some EOF), b') \<Longrightarrow>
   ListenTCP_done cs (client_loop s cs b w) = removeSession cs w"
  by (simp add: client_loop_eof ListenTCP_done_def)

lemma pushNewJob_eq:
  "pushNewJob cs r w =
     (conn_err w cs,
      w\<lparr>encoded := (encoded w)(cs := encoded w cs @
         [Push \<lparr>push_Version = ''2.0'', push_Result = r, push_Id = 0\<rparr>])\<rparr>)"
  by (simp add: pushNewJob_def Encode_def)

lemma broadcast_push_conn_err [simp]: "conn_err (broadcast_push s r c w) = conn_err w"
  by (simp add: broadcast_push_def pushNewJob_eq removeSession_def setDeadline_def split: option.splits)

lemma broadcast_push_clock [simp]: "clock (broadcast_push s r c w) = clock w"
  by (simp add: broadcast_push_def pushNewJob_eq removeSession_def setDeadline_def split: option.splits)




lemma handleTCPMessage_deadline:
  assumes "\<And>c ps wk v. deadline (snd (handleLoginRPC s c ps wk v)) = deadline v"
    and "\<And>c v. deadline (snd (handleGetWorkRPC s c v)) = deadline v"
    and "\<And>c wk ps v. deadline (snd (handleTCPSubmitRPC s c wk ps v)) = deadline v"
    and "\<And>c m v. deadline (snd (handleUnknownRPC s c m v)) = deadline v"
  shows "deadline (snd (handleTCPMessage s cs req w)) = deadline w"
proof -
  have l: "deadline w1 = deadline w"
    if "handleLoginRPC s cs ps wk w = (x, w1)" for ps wk x w1
    using assms(1) [of cs ps wk w] that by simp
  have g: "deadline w1 = deadline w"
    if "handleGetWorkRPC s cs w = (x, w1)" for x w1
    using assms(2) [of cs w] that by simp
  have t: "deadline w1 = deadline w"
    if "handleTCPSubmitRPC s cs wk ps w = (x, w1)" for ps wk x w1
    using assms(3) [of cs wk ps w] that by simp
  have u: "deadline w1 = deadline w"
    if "handleUnknownRPC s cs m w = (x, w1)" for m x w1
    using assms(4) [of cs m w] that by simp
  show ?thesis
    by (auto simp: handleTCPMessage_def sendTCPResult_eq sendTCPError_eq
        split: sum.splits prod.splits option.splits dest: l g t u)
qed



subsection \<open>Claims about the session handler\<close>

text \<open>
  C1 as stated fails. The session below logs in and then sends a request with an
  unknown method: the error envelope goes out, \<open>handleTCPClient\<close> returns the error
  \<^verbatim>\<open>Method not found\<close>, and \<^verbatim>\<open>ListenTCP\<close> removes the session and closes the
  connection; the line that follows is never read.
\<close>

theorem unknown_method_stays_open_counterexample:
  "req_Method \<lparr>req_Id = ''3'', req_Method = ''eth_getBalance'', req_Params = ''[]'', req_Worker = []\<rparr>
     \<notin> {''eth_submitLogin'', ''eth_login'', ''eth_getWork'', ''eth_submitWork'', ''eth_submitHashrate''}
   \<and> Unmarshal_req sample_server line_unknown
     = Inr \<lparr>req_Id = ''3'', req_Method = ''eth_getBalance'', req_Params = ''[]'', req_Worker = []\<rparr>
   \<and> fst (handleTCPClient sample_server miner (line_login @ [LF] @ line_unknown @ [LF] @ line_getWork @ [LF]) EOF world0)
     = Some (Message ''Method not found'')
   \<and> encoded (ListenTCP_serve sample_server miner (line_login @ [LF] @ line_unknown @ [LF] @ line_getWork @ [LF]) EOF world0) miner
     = [Resp \<lparr>resp_Id = ''1'', resp_Version = ''2.0'', resp_Error = None, resp_Result = JBool True\<rparr>,
        Resp \<lparr>resp_Id = ''3'', resp_Version = ''2.0'',
              resp_Error = Some \<lparr>err_Code = - 3, err_Message = ''Method not found''\<rparr>, resp_Result = JNull\<rparr>]
   \<and> miner \<in> closed (ListenTCP_serve sample_server miner (line_login @ [LF] @ line_unknown @ [LF] @ line_getWork @ [LF]) EOF world0)
   \<and> miner \<notin> set (registry (ListenTCP_serve sample_server miner (line_login @ [LF] @ line_unknown @ [LF] @ line_getWork @ [LF]) EOF world0) 0)"
  by (simp add: sample_defs run_defs)

text \<open>
  C1, amended. For every request whose method is none of \<^verbatim>\<open>eth_submitLogin\<close>,
  \<^verbatim>\<open>eth_login\<close>, \<^verbatim>\<open>eth_getWork\<close>, \<^verbatim>\<open>eth_submitWork\<close>, \<^verbatim>\<open>eth_submitHashrate\<close>, the
  handler hands one error envelope (the reply of the unknown-method handler, under the
  request's id) to the encoder and then returns an error, so the session handler
  ends with that error: the session is removed from its registry and the connection is
  closed. An unknown method is always fatal to the session.
\<close>

theorem unknown_method_is_fatal:
  assumes "req_Method req \<notin> {''eth_submitLogin'', ''eth_login'', ''eth_getWork'', ''eth_submitWork'', ''eth_submitHashrate''}"
    and "ReadLine b = ((data, False, None), b')" and "1 < length data"
    and "Unmarshal_req s data = Inr req"
    and "handleUnknownRPC s cs (req_Method req) (setDeadline s cs (s_id cs) w) = (errReply, w1)"
  shows "client_loop s cs b w =
      (case conn_err w1 cs of Some e \<Rightarrow> Some e | None \<Rightarrow> Some (Message (err_Message errReply)),
       w1\<lparr>encoded := (encoded w1)(cs := encoded w1 cs @
          [Resp \<lparr>resp_Id = req_Id req, resp_Version = ''2.0'', resp_Error = Some errReply, resp_Result = JNull\<rparr>])\<rparr>)
    \<and> fst (client_loop s cs b w) \<noteq> None
    \<and> cs \<in> closed (ListenTCP_done cs (client_loop s cs b w))
    \<and> cs \<notin> set (registry (ListenTCP_done cs (client_loop s cs b w)) (s_id cs))"
proof -
  have m: "handleTCPMessage s cs req (setDeadline s cs (s_id cs) w) = sendTCPError cs (req_Id req) errReply w1"
    using assms(1,5) by (rule handleTCPMessage_unknown)
  have l: "client_loop s cs b w =
      (case conn_err w1 cs of Some e \<Rightarrow> Some e | None \<Rightarrow> Some (Message (err_Message errReply)),
       w1\<lparr>encoded := (encoded w1)(cs := encoded w1 cs @
          [Resp \<lparr>resp_Id = req_Id req, resp_Version = ''2.0'', resp_Error = Some errReply, resp_Result = JNull\<rparr>])\<rparr>)"
    unfolding client_loop_request [OF assms(2,3,4)] m sendTCPError_eq
    by (simp split: option.splits)
  show ?thesis
    unfolding l
    by (simp add: ListenTCP_done_def conn_Close_def removeSession_def split: option.splits)
qed

theorem unknown_method_is_fatal_witness:
  "fst (client_loop sample_server miner (NewReaderSize (line_unknown @ [LF]) EOF MaxReqSize) world0)
     = Some (Message ''Method not found'')
   \<and> miner \<in> closed (ListenTCP_done miner
        (client_loop sample_server miner (NewReaderSize (line_unknown @ [LF]) EOF MaxReqSize) world0))"
proof -
  let ?req = "\<lparr>req_Id = ''3'', req_Method = ''eth_getBalance'', req_Params = ''[]'', req_Worker = []\<rparr>"
  let ?rep = "\<lparr>err_Code = - 3, err_Message = ''Method not found''\<rparr>"
  have h1: "req_Method ?req \<notin> {''eth_submitLogin'', ''eth_login'', ''eth_getWork'', ''eth_submitWork'', ''eth_submitHashrate''}"
    by simp
  have h2: "ReadLine (NewReaderSize (line_unknown @ [LF]) EOF MaxReqSize)
      = ((line_unknown, False, None), \<lparr>unread = [], final = EOF, buf_size = 1024\<rparr>)"
    by (simp add: ReadLine_def ReadSlice_def NewReaderSize_def MaxReqSize_def LF_def CR_def Let_def line_unknown_def)
  have h3: "1 < length line_unknown"
    by (simp add: line_unknown_def)
  have h4: "Unmarshal_req sample_server line_unknown = Inr ?req"
    by (simp add: sample_defs)
  have h5: "handleUnknownRPC sample_server miner (req_Method ?req) (setDeadline sample_server miner (s_id miner) world0)
      = (?rep, setDeadline sample_server miner (s_id miner) world0)"
    by (simp add: sample_server_def sample_unknown_def)
  have h6: "conn_err (setDeadline sample_server miner (s_id miner) world0) miner = None"
    by (simp add: setDeadline_def world0_def)
  note t = unknown_method_is_fatal [OF h1 h2 h3 h4 h5]
  from t h6 have a: "fst (client_loop sample_server miner (NewReaderSize (line_unknown @ [LF]) EOF MaxReqSize) world0)
     = Some (Message ''Method not found'')"
    by simp
  from t have c: "miner \<in> closed (ListenTCP_done miner
        (client_loop sample_server miner (NewReaderSize (line_unknown @ [LF]) EOF MaxReqSize) world0))"
    by blast
  from a c show ?thesis
    by blast
qed

text \<open>
  C2 as stated fails. The line below is a well-formed request for
  \<^verbatim>\<open>eth_submitWork\<close> whose parameters are an object, not a list of strings: the
  session handler ends with the decoding error, and the policy gateway has not been
  called at all.
\<close>

theorem malformed_params_policy_counterexample:
  "Unmarshal_req sample_server line_bad_params
     = Inr \<lparr>req_Id = ''4'', req_Method = ''eth_submitWork'', req_Params = ''{}'', req_Worker = []\<rparr>
   \<and> Unmarshal_strings sample_server ''{}''
     = Inl (Syntax ''json: cannot unmarshal object into Go value of type []string'')
   \<and> length line_bad_params < MaxReqSize
   \<and> policy world0 = []
   \<and> fst (handleTCPClient sample_server miner (line_bad_params @ [LF]) EOF world0)
     = Some (Syntax ''json: cannot unmarshal object into Go value of type []string'')
   \<and> policy (snd (handleTCPClient sample_server miner (line_bad_params @ [LF]) EOF world0)) = []"
  by (simp add: sample_defs run_defs)

text \<open>
  C2, amended. For every line that the reader returns whole (fewer than 1024 bytes
  before its line feed, see \<open>ReadLine_whole\<close>) and that is longer than one byte (shorter
  lines are skipped undecoded) and fails decoding, be it the line that does not decode
  as a request or the parameters of \<^verbatim>\<open>eth_submitLogin\<close>, \<^verbatim>\<open>eth_login\<close> or
  \<^verbatim>\<open>eth_submitWork\<close> that do not decode as a list of strings: the session handler
  ends with the decoding error, \<^verbatim>\<open>ListenTCP\<close> closes the connection, and nothing is
  handed to the encoder for that line. When it is the line that does not decode, the
  malformed-request hook is called exactly once.
\<close>

theorem decode_failure_closes:
  assumes "ReadLine b = ((data, False, None), b')" and "1 < length data"
  shows "(Unmarshal_req s data = Inl e \<longrightarrow>
            fst (client_loop s cs b w) = Some e
          \<and> policy (snd (client_loop s cs b w)) = policy w @ [ApplyMalformedPolicy (ip cs)]
          \<and> encoded (snd (client_loop s cs b w)) = encoded w
          \<and> cs \<in> closed (ListenTCP_done cs (client_loop s cs b w)))
       \<and> (Unmarshal_req s data = Inr req
            \<and> req_Method req \<in> {''eth_submitLogin'', ''eth_login'', ''eth_submitWork''}
            \<and> Unmarshal_strings s (req_Params req) = Inl e \<longrightarrow>
            fst (client_loop s cs b w) = Some e
          \<and> encoded (snd (client_loop s cs b w)) = encoded w
          \<and> cs \<in> closed (ListenTCP_done cs (client_loop s cs b w)))"
proof (intro conjI impI)
  assume u: "Unmarshal_req s data = Inl e"
  have l: "client_loop s cs b w = (Some e, w\<lparr>policy := policy w @ [ApplyMalformedPolicy (ip cs)]\<rparr>)"
    unfolding client_loop_malformed [OF assms u] by (simp add: policy_ApplyMalformedPolicy_def)
  show "fst (client_loop s cs b w) = Some e"
    and "policy (snd (client_loop s cs b w)) = policy w @ [ApplyMalformedPolicy (ip cs)]"
    and "encoded (snd (client_loop s cs b w)) = encoded w"
    and "cs \<in> closed (ListenTCP_done cs (client_loop s cs b w))"
    unfolding l by (simp_all add: ListenTCP_done_def conn_Close_def removeSession_def)
next
  assume p: "Unmarshal_req s data = Inr req
      \<and> req_Method req \<in> {''eth_submitLogin'', ''eth_login'', ''eth_submitWork''}
      \<and> Unmarshal_strings s (req_Params req) = Inl e"
  then have m: "handleTCPMessage s cs req (setDeadline s cs (s_id cs) w) = (Some e, setDeadline s cs (s_id cs) w)"
    by (auto simp: handleTCPMessage_def)
  from p have u: "Unmarshal_req s data = Inr req"
    by simp
  have l: "client_loop s cs b w = (Some e, setDeadline s cs (s_id cs) w)"
    unfolding client_loop_request [OF assms u] m by simp
  show "fst (client_loop s cs b w) = Some e"
    and "encoded (snd (client_loop s cs b w)) = encoded w"
    and "cs \<in> closed (ListenTCP_done cs (client_loop s cs b w))"
    unfolding l by (simp_all add: ListenTCP_done_def conn_Close_def removeSession_def setDeadline_def)
qed

theorem decode_failure_closes_witness:
  "fst (client_loop sample_server miner (NewReaderSize (line_garbage @ [LF]) EOF MaxReqSize) world0)
     = Some (Syntax ''invalid character'')
   \<and> policy (snd (client_loop sample_server miner (NewReaderSize (line_garbage @ [LF]) EOF MaxReqSize) world0))
     = [ApplyMalformedPolicy ''10.0.0.7'']
   \<and> fst (client_loop sample_server miner (NewReaderSize (line_bad_params @ [LF]) EOF MaxReqSize) world0)
     = Some (Syntax ''json: cannot unmarshal object into Go value of type []string'')
   \<and> encoded (snd (client_loop sample_server miner (NewReaderSize (line_bad_params @ [LF]) EOF MaxReqSize) world0))
     = encoded world0
   \<and> miner \<in> closed (ListenTCP_done miner
        (client_loop sample_server miner (NewReaderSize (line_bad_params @ [LF]) EOF MaxReqSize) world0))"
proof -
  let ?req = "\<lparr>req_Id = ''4'', req_Method = ''eth_submitWork'', req_Params = ''{}'', req_Worker = []\<rparr>"
  have g1: "ReadLine (NewReaderSize (line_garbage @ [LF]) EOF MaxReqSize)
      = ((line_garbage, False, None), \<lparr>unread = [], final = EOF, buf_size = 1024\<rparr>)"
    by (simp add: ReadLine_def ReadSlice_def NewReaderSize_def MaxReqSize_def LF_def CR_def Let_def line_garbage_def)
  have g2: "1 < length line_garbage"
    by (simp add: line_garbage_def)
  have g3: "Unmarshal_req sample_server line_garbage = Inl (Syntax ''invalid character'')"
    by (simp add: sample_defs)
  have p1: "ReadLine (NewReaderSize (line_bad_params @ [LF]) EOF MaxReqSize)
      = ((line_bad_params, False, None), \<lparr>unread = [], final = EOF, buf_size = 1024\<rparr>)"
    by (simp add: ReadLine_def ReadSlice_def NewReaderSize_def MaxReqSize_def LF_def CR_def Let_def line_bad_params_def)
  have p2: "1 < length line_bad_params"
    by (simp add: line_bad_params_def)
  have p3: "Unmarshal_req sample_server line_bad_params = Inr ?req
      \<and> req_Method ?req \<in> {''eth_submitLogin'', ''eth_login'', ''eth_submitWork''}
      \<and> Unmarshal_strings sample_server (req_Params ?req)
         = Inl (Syntax ''json: cannot unmarshal object into Go value of type []string'')"
    by (simp add: sample_defs)
  have w: "policy world0 = []" "ip miner = ''10.0.0.7''"
    by (simp_all add: sample_defs)
  note tg = decode_failure_closes [OF g1 g2, where s = sample_server and cs = miner and w = world0
      and req = ?req and e = "Syntax ''invalid character''"]
  note tp = decode_failure_closes [OF p1 p2, where s = sample_server and cs = miner and w = world0
      and req = ?req and e = "Syntax ''json: cannot unmarshal object into Go value of type []string''"]
  from tg g3 have a: "fst (client_loop sample_server miner (NewReaderSize (line_garbage @ [LF]) EOF MaxReqSize) world0)
     = Some (Syntax ''invalid character'')"
    by blast
  from tg g3 have "policy (snd (client_loop sample_server miner (NewReaderSize (line_garbage @ [LF]) EOF MaxReqSize) world0))
     = policy world0 @ [ApplyMalformedPolicy (ip miner)]"
    by blast
  then have b: "policy (snd (client_loop sample_server miner (NewReaderSize (line_garbage @ [LF]) EOF MaxReqSize) world0))
     = [ApplyMalformedPolicy ''10.0.0.7'']"
    unfolding w by simp
  from tp p3 have c: "fst (client_loop sample_server miner (NewReaderSize (line_bad_params @ [LF]) EOF MaxReqSize) world0)
     = Some (Syntax ''json: cannot unmarshal object into Go value of type []string'')"
    by blast
  from tp p3 have d: "encoded (snd (client_loop sample_server miner (NewReaderSize (line_bad_params @ [LF]) EOF MaxReqSize) world0))
     = encoded world0"
    by blast
  from tp p3 have e: "miner \<in> closed (ListenTCP_done miner
        (client_loop sample_server miner (NewReaderSize (line_bad_params @ [LF]) EOF MaxReqSize) world0))"
    by blast
  from a b c d e show ?thesis
    by blast
qed

text \<open>
  C3, on the code. The client logs in and then sends 2000 bytes without a line feed.
  \<^verbatim>\<open>ReadLine\<close> reports the prefix of a long line with a \<^verbatim>\<open>nil\<close> error, and the
  handler returns that error: the client is banned and no further line is read, but
  \<^verbatim>\<open>ListenTCP\<close> sees success, so the connection is not closed and the session stays
  in the registry.
\<close>

theorem flood_leaves_connection_open:
  "MaxReqSize < length (replicate 2000 (CHR ''x''))
   \<and> LF \<notin> set (replicate 2000 (CHR ''x''))
   \<and> fst (handleTCPClient sample_server miner (line_login @ [LF] @ replicate 2000 (CHR ''x'')) EOF world0) = None
   \<and> policy (ListenTCP_serve sample_server miner (line_login @ [LF] @ replicate 2000 (CHR ''x'')) EOF world0)
     = [BanClient ''10.0.0.7'']
   \<and> miner \<notin> closed (ListenTCP_serve sample_server miner (line_login @ [LF] @ replicate 2000 (CHR ''x'')) EOF world0)
   \<and> miner \<in> set (registry (ListenTCP_serve sample_server miner (line_login @ [LF] @ replicate 2000 (CHR ''x'')) EOF world0) 0)"
  by (simp add: sample_defs run_defs)

text \<open>
  C7, on the code. The client logs in and closes its end. The handler removes the
  session and returns \<^verbatim>\<open>nil\<close>, and \<^verbatim>\<open>ListenTCP\<close> closes the connection only on an
  error: the connection stays open after a clean end of stream, while the same run
  ending in a transport error closes it.
\<close>

theorem eof_leaves_connection_open:
  "fst (handleTCPClient sample_server miner (line_login @ [LF]) EOF world0) = None
   \<and> miner \<notin> set (registry (ListenTCP_serve sample_server miner (line_login @ [LF]) EOF world0) 0)
   \<and> miner \<notin> closed (ListenTCP_serve sample_server miner (line_login @ [LF]) EOF world0)
   \<and> miner \<in> closed (ListenTCP_serve sample_server miner (line_login @ [LF]) (Transport ''i/o timeout'') world0)"
  by (simp add: sample_defs run_defs)

text \<open>
  C9. The deadline of a session's connection is set to the clock plus the endpoint's
  timeout when \<open>handleTCPClient\<close> starts, after a line has decoded as a request and
  before the request is dispatched, and after a push of the broadcaster that succeeded.
  Nothing else in the file sets it: a line of at most one byte leaves the world as it
  is, a line that does not decode, a long line, the end of the stream and a read error
  leave every deadline as it is, and so do a failed push, the dispatch itself (given
  handlers that leave the deadlines alone), the three send functions and the two
  registry functions.
\<close>

theorem deadline_renewal_points:
  assumes "\<And>c ps wk v. deadline (snd (handleLoginRPC s c ps wk v)) = deadline v"
    and "\<And>c v. deadline (snd (handleGetWorkRPC s c v)) = deadline v"
    and "\<And>c wk ps v. deadline (snd (handleTCPSubmitRPC s c wk ps v)) = deadline v"
    and "\<And>c m v. deadline (snd (handleUnknownRPC s c m v)) = deadline v"
  shows "handleTCPClient s cs bytes fin w =
      client_loop s cs (NewReaderSize bytes fin MaxReqSize)
        (w\<lparr>deadline := (deadline w)(cs := clock w + timeout s (s_id cs))\<rparr>)
    \<and> (ReadLine b = ((data, False, None), b') \<and> 1 < length data \<and> Unmarshal_req s data = Inr req \<longrightarrow>
         client_loop s cs b w =
           (case handleTCPMessage s cs req (w\<lparr>deadline := (deadline w)(cs := clock w + timeout s (s_id cs))\<rparr>) of
              (Some e', w') \<Rightarrow> (Some e', w')
            | (None, w') \<Rightarrow> client_loop s cs b' w'))
    \<and> deadline (broadcast_push s r cs w) =
         (if fst (pushNewJob cs r w) = None then (deadline w)(cs := clock w + timeout s (s_id cs))
          else deadline w)
    \<and> (ReadLine b = ((data, False, None), b') \<and> length data \<le> 1 \<longrightarrow>
         client_loop s cs b w = client_loop s cs b' w)
    \<and> (ReadLine b = ((data, False, None), b') \<and> 1 < length data \<and> Unmarshal_req s data = Inl e \<longrightarrow>
         deadline (snd (client_loop s cs b w)) = deadline w)
    \<and> (ReadLine b = ((data, True, err), b') \<longrightarrow> deadline (snd (client_loop s cs b w)) = deadline w)
    \<and> (ReadLine b = ((data, False, Some e), b') \<longrightarrow> deadline (snd (client_loop s cs b w)) = deadline w)
    \<and> deadline (snd (handleTCPMessage s cs req w)) = deadline w
    \<and> deadline (snd (sendTCPResult cs i r w)) = deadline w
    \<and> deadline (snd (sendTCPError cs i rep w)) = deadline w
    \<and> deadline (snd (pushNewJob cs r w)) = deadline w
    \<and> deadline (registerSession cs w) = deadline w
    \<and> deadline (removeSession cs w) = deadline w"
proof -
  have a: "handleTCPClient s cs bytes fin w =
      client_loop s cs (NewReaderSize bytes fin MaxReqSize)
        (w\<lparr>deadline := (deadline w)(cs := clock w + timeout s (s_id cs))\<rparr>)"
    by (simp add: handleTCPClient_def setDeadline_def)
  have b: "ReadLine b = ((data, False, None), b') \<and> 1 < length data \<and> Unmarshal_req s data = Inr req \<longrightarrow>
         client_loop s cs b w =
           (case handleTCPMessage s cs req (w\<lparr>deadline := (deadline w)(cs := clock w + timeout s (s_id cs))\<rparr>) of
              (Some e', w') \<Rightarrow> (Some e', w')
            | (None, w') \<Rightarrow> client_loop s cs b' w')"
    using client_loop_request [of b data b' s req cs w] by (simp add: setDeadline_def)
  have c: "deadline (broadcast_push s r cs w) =
         (if fst (pushNewJob cs r w) = None then (deadline w)(cs := clock w + timeout s (s_id cs))
          else deadline w)"
    by (simp add: broadcast_push_def pushNewJob_eq removeSession_def setDeadline_def split: option.splits)
  have d: "ReadLine b = ((data, False, None), b') \<and> length data \<le> 1 \<longrightarrow>
         client_loop s cs b w = client_loop s cs b' w"
    using client_loop_skip [of b data b' s cs w] by simp
  have e: "ReadLine b = ((data, False, None), b') \<and> 1 < length data \<and> Unmarshal_req s data = Inl e \<longrightarrow>
         deadline (snd (client_loop s cs b w)) = deadline w"
    using client_loop_malformed [of b data b' s e cs w] by (simp add: policy_ApplyMalformedPolicy_def)
  have f: "ReadLine b = ((data, True, err), b') \<longrightarrow> deadline (snd (client_loop s cs b w)) = deadline w"
    using client_loop_flood [of b data err b' s cs w] by (simp add: policy_BanClient_def)
  have g: "ReadLine b = ((data, False, Some e), b') \<longrightarrow> deadline (snd (client_loop s cs b w)) = deadline w"
    using client_loop_eof [of b data b' s cs w] client_loop_read_error [of b data e b' s cs w]
    by (cases "e = EOF") (simp_all add: removeSession_def)
  have h: "deadline (snd (handleTCPMessage s cs req w)) = deadline w"
    using assms by (rule handleTCPMessage_deadline)
  have i: "deadline (snd (sendTCPResult cs i r w)) = deadline w"
    "deadline (snd (sendTCPError cs i rep w)) = deadline w"
    "deadline (snd (pushNewJob cs r w)) = deadline w"
    "deadline (registerSession cs w) = deadline w"
    "deadline (removeSession cs w) = deadline w"
    by (simp_all add: sendTCPResult_eq sendTCPError_eq pushNewJob_eq registerSession_def removeSession_def)
  from a b c d e f g h i show ?thesis
    by blast
qed

theorem deadline_renewal_points_witness:
  "deadline (snd (handleTCPClient sample_server miner [] EOF world0)) miner = 5000001000
   \<and> client_loop sample_server miner (NewReaderSize (''x'' @ [LF]) EOF MaxReqSize) world0
     = client_loop sample_server miner \<lparr>unread = [], final = EOF, buf_size = 1024\<rparr> world0
   \<and> deadline (snd (client_loop sample_server miner (NewReaderSize (line_garbage @ [LF]) EOF MaxReqSize) world0))
     = deadline world0
   \<and> deadline (broadcast_push sample_server (JStrings []) miner world1) miner = 5000001000
   \<and> deadline (broadcast_push sample_server (JStrings []) rig world1) = deadline world1"
proof -
  have f1: "\<And>c ps wk v. deadline (snd (handleLoginRPC sample_server c ps wk v)) = deadline v"
    by (simp add: sample_server_def sample_login_def registerSession_def)
  have f2: "\<And>c v. deadline (snd (handleGetWorkRPC sample_server c v)) = deadline v"
    by (simp add: sample_server_def sample_getWork_def)
  have f3: "\<And>c wk ps v. deadline (snd (handleTCPSubmitRPC sample_server c wk ps v)) = deadline v"
    by (simp add: sample_server_def sample_submit_def)
  have f4: "\<And>c m v. deadline (snd (handleUnknownRPC sample_server c m v)) = deadline v"
    by (simp add: sample_server_def sample_unknown_def)
  have x1: "ReadLine (NewReaderSize (''x'' @ [LF]) EOF MaxReqSize)
      = ((''x'', False, None), \<lparr>unread = [], final = EOF, buf_size = 1024\<rparr>)"
    by (simp add: ReadLine_def ReadSlice_def NewReaderSize_def MaxReqSize_def LF_def CR_def Let_def)
  have g1: "ReadLine (NewReaderSize (line_garbage @ [LF]) EOF MaxReqSize)
      = ((line_garbage, False, None), \<lparr>unread = [], final = EOF, buf_size = 1024\<rparr>)"
    by (simp add: ReadLine_def ReadSlice_def NewReaderSize_def MaxReqSize_def LF_def CR_def Let_def line_garbage_def)
  have g2: "1 < length line_garbage" "Unmarshal_req sample_server line_garbage = Inl (Syntax ''invalid character'')"
    by (simp_all add: sample_defs)
  have e1: "ReadLine (NewReaderSize [] EOF MaxReqSize)
      = (([], False, Some EOF), \<lparr>unread = [], final = EOF, buf_size = 1024\<rparr>)"
    by (simp add: ReadLine_def ReadSlice_def NewReaderSize_def MaxReqSize_def LF_def CR_def Let_def)
  have v: "clock world0 + timeout sample_server (s_id miner) = 5000001000"
    "clock world1 + timeout sample_server (s_id miner) = 5000001000"
    "fst (pushNewJob miner (JStrings []) world1) = None"
    "fst (pushNewJob rig (JStrings []) world1) \<noteq> None"
    by (simp_all add: sample_defs pushNewJob_eq)
  note t1 = deadline_renewal_points [OF f1 f2 f3 f4, where cs = miner and w = world0 and bytes = "[]"
      and fin = EOF and b = "NewReaderSize (''x'' @ [LF]) EOF MaxReqSize" and data = "''x''"
      and b' = "\<lparr>unread = [], final = EOF, buf_size = 1024\<rparr>"]
  note t2 = deadline_renewal_points [OF f1 f2 f3 f4, where cs = miner and w = world0
      and b = "NewReaderSize (line_garbage @ [LF]) EOF MaxReqSize" and data = line_garbage
      and b' = "\<lparr>unread = [], final = EOF, buf_size = 1024\<rparr>" and e = "Syntax ''invalid character''"]
  note t3 = deadline_renewal_points [OF f1 f2 f3 f4, where cs = miner and w = world1 and r = "JStrings []"]
  note t4 = deadline_renewal_points [OF f1 f2 f3 f4, where cs = rig and w = world1 and r = "JStrings []"]
  from t1 have "handleTCPClient sample_server miner [] EOF world0 =
      client_loop sample_server miner (NewReaderSize [] EOF MaxReqSize)
        (world0\<lparr>deadline := (deadline world0)(miner := clock world0 + timeout sample_server (s_id miner))\<rparr>)"
    by blast
  then have a: "deadline (snd (handleTCPClient sample_server miner [] EOF world0)) miner = 5000001000"
    unfolding v client_loop_eof [OF e1]
    by (simp add: removeSession_def)
  from t1 x1 have b: "client_loop sample_server miner (NewReaderSize (''x'' @ [LF]) EOF MaxReqSize) world0
     = client_loop sample_server miner \<lparr>unread = [], final = EOF, buf_size = 1024\<rparr> world0"
    by simp
  from t2 g1 g2 have c: "deadline (snd (client_loop sample_server miner
      (NewReaderSize (line_garbage @ [LF]) EOF MaxReqSize) world0)) = deadline world0"
    by blast
  from t3 v have d: "deadline (broadcast_push sample_server (JStrings []) miner world1) miner = 5000001000"
    by simp
  from t4 v have e: "deadline (broadcast_push sample_server (JStrings []) rig world1) = deadline world1"
    by simp
  from a b c d e show ?thesis
    by blast
qed

subsection \<open>Claims about the dispatch\<close>




text \<open>
  C8. A request with method \<^verbatim>\<open>eth_submitHashrate\<close> is answered with the envelope
  \<open>{id, version "2.0", error: null, result: true}\<close> and nothing else happens: no
  handler of the server takes part (any other server gives the same outcome), and a
  second such request gives the same envelope and the same result again, with every
  other part of the world as it was.
\<close>

theorem submitHashrate_reply:
  assumes "req_Method req = ''eth_submitHashrate''"
  shows "handleTCPMessage s cs req w =
      (conn_err w cs,
       w\<lparr>encoded := (encoded w)(cs := encoded w cs @
          [Resp \<lparr>resp_Id = req_Id req, resp_Version = ''2.0'', resp_Error = None, resp_Result = JBool True\<rparr>])\<rparr>)
    \<and> handleTCPMessage s' cs req w = handleTCPMessage s cs req w
    \<and> snd (handleTCPMessage s cs req (snd (handleTCPMessage s cs req w))) =
       w\<lparr>encoded := (encoded w)(cs := encoded w cs @
          [Resp \<lparr>resp_Id = req_Id req, resp_Version = ''2.0'', resp_Error = None, resp_Result = JBool True\<rparr>,
           Resp \<lparr>resp_Id = req_Id req, resp_Version = ''2.0'', resp_Error = None, resp_Result = JBool True\<rparr>])\<rparr>
    \<and> fst (handleTCPMessage s cs req (snd (handleTCPMessage s cs req w))) = fst (handleTCPMessage s cs req w)"
  using assms by (simp add: handleTCPMessage_def sendTCPResult_eq)

theorem submitHashrate_reply_witness:
  "handleTCPMessage sample_server miner
      \<lparr>req_Id = ''1'', req_Method = ''eth_submitHashrate'', req_Params = ''[]'', req_Worker = []\<rparr> world0 =
      (None,
       world0\<lparr>encoded := (encoded world0)(miner :=
          [Resp \<lparr>resp_Id = ''1'', resp_Version = ''2.0'', resp_Error = None, resp_Result = JBool True\<rparr>])\<rparr>)"
proof -
  have a: "req_Method \<lparr>req_Id = ''1'', req_Method = ''eth_submitHashrate'', req_Params = ''[]'', req_Worker = []\<rparr>
      = ''eth_submitHashrate''"
    by simp
  have b: "conn_err world0 miner = None" "encoded world0 miner = []"
    by (simp_all add: world0_def)
  show ?thesis
    using submitHashrate_reply [OF a, of sample_server miner world0 sample_server] b
    by simp
qed

subsection \<open>Claims about the broadcaster\<close>




end
